theory Spec2Isabelle
  imports Complex_Main "HOL-Library.Log_Nat" "HOL-Library.Sublist"
begin

section \<open>JavaScript numbers and strings\<close>

subsection \<open>Numbers\<close>

text \<open>
  A TypeScript \<^verbatim>\<open>number\<close> is an IEEE-754 binary64 value. A finite value is kept as the
  rational it denotes; the sign of zero is not tracked (no operation modelled here
  observes it). An item identifier is a whole number; the record keeps the
  \<^typ>\<open>int\<close> it denotes, comparison and maximum are exact on it, and the one
  arithmetic step on identifiers, the \<^verbatim>\<open>+ 1\<close> of \<^verbatim>\<open>handleAddMenuItem\<close>, is the rounded
  binary64 addition.
\<close>

datatype jsnum = NaN | Infinity | NegInfinity | Finite rat

definition isNaN :: "jsnum \<Rightarrow> bool" where
  "isNaN v = (v = NaN)"

definition isFinite :: "jsnum \<Rightarrow> bool" where
  "isFinite v = (case v of Finite _ \<Rightarrow> True | _ \<Rightarrow> False)"

text \<open>The binary exponent of a non-zero rational: \<open>2 powi k \<le> \<bar>q\<bar> < 2 powi (k + 1)\<close>.\<close>

definition floor_log2 :: "rat \<Rightarrow> int" where
  "floor_log2 q =
     (let (a, b) = quotient_of \<bar>q\<bar>; k = bitlen a - bitlen b
      in if 2 powi k \<le> \<bar>q\<bar> then k else k - 1)"

text \<open>
  The spacing of binary64 values around \<open>q\<close> is \<open>2 powi quantum_exp q\<close>: 53 significant
  bits, and a fixed spacing below the smallest normal number \<open>2 powi (- 1022)\<close>.
\<close>

definition quantum_exp :: "rat \<Rightarrow> int" where
  "quantum_exp q = max (floor_log2 q) (- 1022) - 52"

definition round_half_even :: "rat \<Rightarrow> int" where
  "round_half_even x =
     (let f = \<lfloor>x\<rfloor>; d = x - of_int f
      in if d < 1 / 2 then f else if 1 / 2 < d then f + 1 else if even f then f else f + 1)"

text \<open>Round to nearest, ties to even; a result of magnitude \<open>2 powi 1024\<close> overflows.\<close>

definition round64 :: "rat \<Rightarrow> jsnum" where
  "round64 q =
     (if q = 0 then Finite 0
      else let e = quantum_exp q;
               r = of_int (round_half_even (q / 2 powi e)) * 2 powi e
           in if 2 powi 1024 \<le> \<bar>r\<bar> then (if 0 < q then Infinity else NegInfinity)
              else Finite r)"

text \<open>The rationals that are binary64 values.\<close>

definition is_double :: "rat \<Rightarrow> bool" where
  "is_double q =
     (\<bar>q\<bar> < 2 powi 1024 \<and>
      (q = 0 \<or> (let m = q / 2 powi quantum_exp q in of_int \<lfloor>m\<rfloor> = m)))"

text \<open>The \<^verbatim>\<open>+\<close> of two numbers.\<close>

fun js_add :: "jsnum \<Rightarrow> jsnum \<Rightarrow> jsnum" where
  "js_add NaN _ = NaN"
| "js_add _ NaN = NaN"
| "js_add Infinity NegInfinity = NaN"
| "js_add NegInfinity Infinity = NaN"
| "js_add Infinity _ = Infinity"
| "js_add _ Infinity = Infinity"
| "js_add NegInfinity _ = NegInfinity"
| "js_add _ NegInfinity = NegInfinity"
| "js_add (Finite a) (Finite b) = round64 (a + b)"

text \<open>
  The whole number that a number denotes. It is applied to \<open>n + 1\<close> for a whole number
  \<open>n \<ge> 0\<close>, which is finite and whole when \<open>n\<close> is a binary64 value; the other cases
  arise only from an \<^typ>\<open>int\<close> of magnitude \<open>2 ^ 1024\<close> or more, which is no binary64
  value, and give 0.
\<close>

definition whole_number :: "jsnum \<Rightarrow> int" where
  "whole_number v = (case v of Finite r \<Rightarrow> \<lfloor>r\<rfloor> | _ \<Rightarrow> 0)"

subsection \<open>The built-in \<^verbatim>\<open>parseFloat\<close>\<close>

text \<open>
  \<^verbatim>\<open>parseFloat\<close> is part of the language, not of the repository; it is written out after
  ECMA-262: leading white space is skipped, the longest prefix that is a
  \<^verbatim>\<open>StrDecimalLiteral\<close> is read and anything after it is ignored; without such a prefix
  the result is \<^verbatim>\<open>NaN\<close>. A string is kept as the UTF-8 encoding of its text, so a
  character beyond ASCII is two to four bytes.
\<close>

text \<open>
  \<^verbatim>\<open>StrWhiteSpaceChar\<close>, by the length of the encoding. One byte: tab, line feed,
  vertical tab, form feed, carriage return, space. Two bytes: U+00A0. Three bytes:
  U+1680, U+2000 to U+200A, U+2028, U+2029, U+202F, U+205F, U+3000 and U+FEFF.
\<close>

definition isWhiteSpace1 :: "char \<Rightarrow> bool" where
  "isWhiteSpace1 c = (c \<in> set [CHR 0x09, CHR 0x0A, CHR 0x0B, CHR 0x0C, CHR 0x0D, CHR 0x20])"

definition isWhiteSpace2 :: "char \<Rightarrow> char \<Rightarrow> bool" where
  "isWhiteSpace2 c1 c2 = (c1 = CHR 0xC2 \<and> c2 = CHR 0xA0)"

definition isWhiteSpace3 :: "char \<Rightarrow> char \<Rightarrow> char \<Rightarrow> bool" where
  "isWhiteSpace3 c1 c2 c3 =
     (c1 = CHR 0xE1 \<and> c2 = CHR 0x9A \<and> c3 = CHR 0x80 \<or>
      c1 = CHR 0xE2 \<and> c2 = CHR 0x80 \<and>
        c3 \<in> set [CHR 0x80, CHR 0x81, CHR 0x82, CHR 0x83, CHR 0x84, CHR 0x85, CHR 0x86,
                   CHR 0x87, CHR 0x88, CHR 0x89, CHR 0x8A, CHR 0xA8, CHR 0xA9, CHR 0xAF] \<or>
      c1 = CHR 0xE2 \<and> c2 = CHR 0x81 \<and> c3 = CHR 0x9F \<or>
      c1 = CHR 0xE3 \<and> c2 = CHR 0x80 \<and> c3 = CHR 0x80 \<or>
      c1 = CHR 0xEF \<and> c2 = CHR 0xBB \<and> c3 = CHR 0xBF)"

text \<open>\<^verbatim>\<open>TrimString(inputString, start)\<close>: the text without its leading white space.\<close>

fun trimStart :: "string \<Rightarrow> string" where
  "trimStart (c1 # c2 # c3 # s) =
     (if isWhiteSpace1 c1 then trimStart (c2 # c3 # s)
      else if isWhiteSpace2 c1 c2 then trimStart (c3 # s)
      else if isWhiteSpace3 c1 c2 c3 then trimStart s
      else c1 # c2 # c3 # s)"
| "trimStart [c1, c2] =
     (if isWhiteSpace1 c1 then trimStart [c2]
      else if isWhiteSpace2 c1 c2 then []
      else [c1, c2])"
| "trimStart [c1] = (if isWhiteSpace1 c1 then [] else [c1])"
| "trimStart [] = []"

definition isDigit :: "char \<Rightarrow> bool" where
  "isDigit c = (c \<in> set ''0123456789'')"

text \<open>The value of a digit: its character code less that of \<^verbatim>\<open>0\<close>.\<close>

definition digitValue :: "char \<Rightarrow> nat" where
  "digitValue c = of_char c - 48"

definition digitsValue :: "string \<Rightarrow> nat" where
  "digitsValue ds = foldl (\<lambda>acc c. 10 * acc + digitValue c) 0 ds"

text \<open>An optional sign: whether it is a minus, and the rest of the text.\<close>

definition takeSign :: "string \<Rightarrow> bool \<times> string" where
  "takeSign s =
     (case s of
        [] \<Rightarrow> (False, [])
      | c # rest \<Rightarrow>
          if c = CHR ''-'' then (True, rest)
          else if c = CHR ''+'' then (False, rest)
          else (False, s))"

text \<open>
  \<^verbatim>\<open>ExponentPart\<close>: \<^verbatim>\<open>e\<close> or \<^verbatim>\<open>E\<close>, an optional sign and at least one digit; an
  \<^verbatim>\<open>e\<close> that no digit follows is not part of the literal.
\<close>

definition exponentPart :: "string \<Rightarrow> int" where
  "exponentPart s =
     (case s of
        [] \<Rightarrow> 0
      | c # rest \<Rightarrow>
          if c = CHR ''e'' \<or> c = CHR ''E''
          then (let (negative, rest') = takeSign rest;
                    expDigits = takeWhile isDigit rest'
                in if expDigits = [] then 0
                   else if negative then - int (digitsValue expDigits)
                   else int (digitsValue expDigits))
          else 0)"

text \<open>
  \<^verbatim>\<open>StrUnsignedDecimalLiteral\<close> without \<^verbatim>\<open>Infinity\<close>: digits, an optional fraction
  and an optional exponent, with at least one digit before the exponent. The result is the
  mathematical value of the literal.
\<close>

definition unsignedDecimal :: "string \<Rightarrow> rat option" where
  "unsignedDecimal s =
     (let intDigits = takeWhile isDigit s;
          rest1 = dropWhile isDigit s;
          (fracDigits, rest2) =
             (case rest1 of
                [] \<Rightarrow> ([], [])
              | c # r \<Rightarrow>
                  if c = CHR ''.'' then (takeWhile isDigit r, dropWhile isDigit r)
                  else ([], rest1))
      in if intDigits = [] \<and> fracDigits = [] then None
         else Some (of_nat (digitsValue (intDigits @ fracDigits)) *
                    10 powi (exponentPart rest2 - int (length fracDigits))))"

definition parseFloat :: "string \<Rightarrow> jsnum" where
  "parseFloat inputString =
     (let trimmedString = trimStart inputString;
          (negative, unsigned) = takeSign trimmedString
      in if take 8 unsigned = ''Infinity'' then (if negative then NegInfinity else Infinity)
         else case unsignedDecimal unsigned of
                None \<Rightarrow> NaN
              | Some mv \<Rightarrow> round64 (if negative then - mv else mv))"

subsection \<open>Insertion-ordered sets\<close>

text \<open>
  A JavaScript \<^verbatim>\<open>Set\<close> iterates in insertion order, and adding a value that is already
  present changes nothing. \<^verbatim>\<open>Array.from(new Set(values))\<close> is the list of the elements in
  that order.
\<close>

definition Set_add :: "'a list \<Rightarrow> 'a \<Rightarrow> 'a list" where
  "Set_add s v = (if v \<in> set s then s else s @ [v])"

definition Array_from_new_Set :: "'a list \<Rightarrow> 'a list" where
  "Array_from_new_Set values = foldl Set_add [] values"

text \<open>
  What the specification calls the distinct values in first-seen order, written
  independently of the code: the head is kept and its later occurrences are dropped.
\<close>

fun first_seen :: "'a list \<Rightarrow> 'a list" where
  "first_seen [] = []"
| "first_seen (x # xs) = x # filter (\<lambda>y. y \<noteq> x) (first_seen xs)"

section \<open>Data model\<close>

text \<open>
  \<^verbatim>\<open>interface MenuItem { id; name; price; category; icon; "icon-name"; image? }\<close>.
  The dialog passes an \<^verbatim>\<open>Omit<MenuItem, "id">\<close>, which is the parent record here.
\<close>

record NewMenuItem =
  name :: string
  price :: jsnum
  category :: string
  icon :: string
  icon_name :: string
  image_url :: "string option"

record MenuItem = NewMenuItem +
  item_id :: int

datatype toast_kind = Plain | Success

text \<open>
  The state of the \<^verbatim>\<open>Index\<close> page: its four \<^verbatim>\<open>useState\<close> cells and the notifications
  sent so far.
\<close>

record IndexState =
  menu :: "MenuItem list"
  selectedItems :: "MenuItem list"
  categories :: "string list"
  addItemDialogOpen :: bool
  toasts :: "(toast_kind \<times> string) list"

definition initialState :: IndexState where
  "initialState =
     \<lparr>menu = [], selectedItems = [], categories = [], addItemDialogOpen = False, toasts = []\<rparr>"

section \<open>The Index page\<close>

text \<open>
  The mount effect: the menu is the imported \<^verbatim>\<open>menu.json\<close> (a parameter here), the
  categories are \<^verbatim>\<open>Array.from(new Set(menuData.map(item => item.category)))\<close>.
\<close>

definition initialize :: "MenuItem list \<Rightarrow> IndexState \<Rightarrow> IndexState" where
  "initialize menuData st =
     (let uniqueCategories = Array_from_new_Set (map category menuData)
      in st\<lparr>menu := menuData, categories := uniqueCategories\<rparr>)"

text \<open>\<^verbatim>\<open>currentItems.some(selectedItem => selectedItem.id === item.id)\<close>\<close>

definition isAlreadySelected :: "MenuItem list \<Rightarrow> MenuItem \<Rightarrow> bool" where
  "isAlreadySelected currentItems item =
     list_ex (\<lambda>selectedItem. item_id selectedItem = item_id item) currentItems"

text \<open>
  \<^verbatim>\<open>handleOrderItem\<close>: the updater given to \<^verbatim>\<open>setSelectedItems\<close> removes every entry
  with the item's id when one is present and appends the item otherwise, and sends a
  notification.
\<close>

definition handleOrderItem :: "MenuItem \<Rightarrow> IndexState \<Rightarrow> IndexState" where
  "handleOrderItem item st =
     (let currentItems = selectedItems st
      in if isAlreadySelected currentItems item
         then st\<lparr>selectedItems :=
                    filter (\<lambda>selectedItem. item_id selectedItem \<noteq> item_id item) currentItems,
                  toasts := toasts st @ [(Plain, ''Removed '' @ name item @ '' from your order'')]\<rparr>
         else st\<lparr>selectedItems := currentItems @ [item],
                  toasts := toasts st @ [(Plain, ''Added '' @ name item @ '' to your order'')]\<rparr>)"

text \<open>
  \<^verbatim>\<open>handleAddMenuItem\<close>: \<^verbatim>\<open>Math.max(...menu.map(item => item.id), 0) + 1\<close> is the new id;
  the item is appended to the menu, its category is appended to the categories when
  \<^verbatim>\<open>categories.includes\<close> does not find it, and a success notification is sent.
\<close>

definition newId :: "MenuItem list \<Rightarrow> int" where
  "newId items =
     whole_number (js_add (Finite (of_int (Max (set (map item_id items @ [0]))))) (Finite 1))"

definition handleAddMenuItem :: "NewMenuItem \<Rightarrow> IndexState \<Rightarrow> IndexState" where
  "handleAddMenuItem newItem st =
     (let itemWithId =
            \<lparr>name = name newItem, price = price newItem, category = category newItem,
             icon = icon newItem, icon_name = icon_name newItem, image_url = image_url newItem,
             item_id = newId (menu st)\<rparr>;
          st1 = st\<lparr>menu := menu st @ [itemWithId]\<rparr>;
          st2 = (if category newItem \<notin> set (categories st)
                 then st1\<lparr>categories := categories st1 @ [category newItem]\<rparr>
                 else st1)
      in st2\<lparr>toasts := toasts st2 @ [(Success, ''Added '' @ name newItem @ '' to the menu'')]\<rparr>)"

definition setAddItemDialogOpen :: "bool \<Rightarrow> IndexState \<Rightarrow> IndexState" where
  "setAddItemDialogOpen b st = st\<lparr>addItemDialogOpen := b\<rparr>"

text \<open>The callbacks that the page hands to its children are the only writers of its state.\<close>

datatype event = OrderItem MenuItem | AddItem NewMenuItem | OpenChange bool

fun dispatch :: "event \<Rightarrow> IndexState \<Rightarrow> IndexState" where
  "dispatch (OrderItem item) st = handleOrderItem item st"
| "dispatch (AddItem newItem) st = handleAddMenuItem newItem st"
| "dispatch (OpenChange b) st = setAddItemDialogOpen b st"

text \<open>The categories are the distinct categories of the menu in first-seen order.\<close>

definition categories_ok :: "IndexState \<Rightarrow> bool" where
  "categories_ok st = (categories st = first_seen (map category (menu st)))"

text \<open>Membership of an id in the selection.\<close>

definition selected_id :: "IndexState \<Rightarrow> int \<Rightarrow> bool" where
  "selected_id st i = (i \<in> set (map item_id (selectedItems st)))"

section \<open>The add-item dialog\<close>

text \<open>The five \<^verbatim>\<open>useState\<close> cells of \<^verbatim>\<open>AddItemDialog\<close>: name, price, category, iconName, selectedIcon.\<close>

record DialogState =
  name_input :: string
  price_input :: string
  category_input :: string
  iconName :: string
  selectedIcon :: string

text \<open>The default glyph, U+1F37D U+FE0F, as its UTF-8 bytes.\<close>

definition defaultIcon :: string where
  "defaultIcon = [CHR 0xF0, CHR 0x9F, CHR 0x8D, CHR 0xBD, CHR 0xEF, CHR 0xB8, CHR 0x8F]"

definition initialDialog :: DialogState where
  "initialDialog =
     \<lparr>name_input = [], price_input = [], category_input = [], iconName = [],
      selectedIcon = defaultIcon\<rparr>"

text \<open>
  \<^verbatim>\<open>handleSubmit\<close>, with the two callbacks of the props acting on the parent's state
  \<open>p\<close>. Both early returns leave the dialog and the parent as they are.
\<close>

definition handleSubmit ::
  "(NewMenuItem \<Rightarrow> 'p \<Rightarrow> 'p) \<Rightarrow> (bool \<Rightarrow> 'p \<Rightarrow> 'p) \<Rightarrow> DialogState \<times> 'p \<Rightarrow> DialogState \<times> 'p" where
  "handleSubmit onAddItem onOpenChange dp =
     (let (d, p) = dp
      in if name_input d = [] \<or> price_input d = [] \<or> category_input d = [] \<or> iconName d = []
         then (d, p)
         else let priceValue = parseFloat (price_input d)
              in if isNaN priceValue then (d, p)
                 else (initialDialog,
                       onOpenChange False
                         (onAddItem
                            \<lparr>name = name_input d, price = priceValue,
                             category = category_input d, icon = selectedIcon d,
                             icon_name = iconName d, image_url = None\<rparr> p)))"

text \<open>The dialog as the page mounts it: \<^verbatim>\<open>onAddItem={handleAddMenuItem}\<close>, \<^verbatim>\<open>onOpenChange={setAddItemDialogOpen}\<close>.\<close>

definition createEntry :: "DialogState \<times> IndexState \<Rightarrow> DialogState \<times> IndexState" where
  "createEntry = handleSubmit handleAddMenuItem setAddItemDialogOpen"

text \<open>The drafts that pass both checks of \<^verbatim>\<open>handleSubmit\<close>.\<close>

definition accepted :: "DialogState \<Rightarrow> bool" where
  "accepted d =
     (name_input d \<noteq> [] \<and> price_input d \<noteq> [] \<and> category_input d \<noteq> [] \<and> iconName d \<noteq> [] \<and>
      parseFloat (price_input d) \<noteq> NaN)"

text \<open>The validation rule in the specification's words.\<close>

definition spec_invalid :: "DialogState \<Rightarrow> bool" where
  "spec_invalid d =
     (name_input d = [] \<or> category_input d = [] \<or> iconName d = [] \<or>
      \<not> isFinite (parseFloat (price_input d)))"

section \<open>The category views\<close>

text \<open>What a category view renders: an item card is the item and whether it is highlighted.\<close>

datatype element =
    Null
  | EmptyCategory string string
  | CategoryGrid string "(MenuItem \<times> bool) list"
  | Carousel string bool bool int "(MenuItem \<times> bool) list"

subsection \<open>\<^verbatim>\<open>MenuCarousel\<close>\<close>

definition MenuCarousel_categoryItems :: "MenuItem list \<Rightarrow> string \<Rightarrow> MenuItem list" where
  "MenuCarousel_categoryItems items cat = filter (\<lambda>item. category item = cat) items"

definition visibleItems :: "MenuItem list \<Rightarrow> string \<Rightarrow> int" where
  "visibleItems items cat = min 5 (int (length (MenuCarousel_categoryItems items cat)))"

definition maxIndex :: "MenuItem list \<Rightarrow> string \<Rightarrow> int" where
  "maxIndex items cat =
     max 0 (int (length (MenuCarousel_categoryItems items cat)) - visibleItems items cat)"

definition goToPrevious :: "int \<Rightarrow> int" where
  "goToPrevious prevIndex = max 0 (prevIndex - 1)"

definition goToNext :: "MenuItem list \<Rightarrow> string \<Rightarrow> int \<Rightarrow> int" where
  "goToNext items cat prevIndex = min (maxIndex items cat) (prevIndex + 1)"

definition MenuCarousel_isItemSelected :: "MenuItem list \<Rightarrow> MenuItem \<Rightarrow> bool" where
  "MenuCarousel_isItemSelected selected item =
     list_ex (\<lambda>selectedItem. item_id selectedItem = item_id item) selected"

text \<open>
  The empty state is a heading and a message. Otherwise: the heading, whether the
  previous and the next button are disabled, the horizontal shift in pixels, and a card for
  every item of the category.
\<close>

definition MenuCarousel :: "MenuItem list \<Rightarrow> string \<Rightarrow> MenuItem list \<Rightarrow> int \<Rightarrow> element" where
  "MenuCarousel items cat selected activeIndex =
     (let categoryItems = MenuCarousel_categoryItems items cat
      in if length categoryItems = 0
         then EmptyCategory cat ''No items in this category''
         else Carousel cat (activeIndex = 0) (maxIndex items cat \<le> activeIndex)
                (activeIndex * 88)
                (map (\<lambda>item. (item, MenuCarousel_isItemSelected selected item)) categoryItems))"

subsection \<open>\<^verbatim>\<open>MenuCategoryView\<close>\<close>

definition MenuCategoryView_categoryItems :: "MenuItem list \<Rightarrow> string \<Rightarrow> MenuItem list" where
  "MenuCategoryView_categoryItems items cat = filter (\<lambda>item. category item = cat) items"

definition MenuCategoryView_isItemSelected :: "MenuItem list \<Rightarrow> MenuItem \<Rightarrow> bool" where
  "MenuCategoryView_isItemSelected selected item =
     list_ex (\<lambda>selectedItem. item_id selectedItem = item_id item) selected"

definition MenuCategoryView :: "MenuItem list \<Rightarrow> string \<Rightarrow> MenuItem list \<Rightarrow> element" where
  "MenuCategoryView items cat selected =
     (let categoryItems = MenuCategoryView_categoryItems items cat
      in if length categoryItems = 0 then Null
         else CategoryGrid cat
                (map (\<lambda>item. (item, MenuCategoryView_isItemSelected selected item)) categoryItems))"

subsection \<open>The choice of the view\<close>

text \<open>
  \<^verbatim>\<open>isMobile ? <MenuCategoryView .../> : <MenuCarousel .../>\<close> for each category; every
  carousel has its own \<^verbatim>\<open>activeIndex\<close>.
\<close>

definition Index_category :: "bool \<Rightarrow> IndexState \<Rightarrow> (string \<Rightarrow> int) \<Rightarrow> string \<Rightarrow> element" where
  "Index_category isMobile st activeIndex cat =
     (if isMobile then MenuCategoryView (menu st) cat (selectedItems st)
      else MenuCarousel (menu st) cat (selectedItems st) (activeIndex cat))"

definition Index_render :: "bool \<Rightarrow> IndexState \<Rightarrow> (string \<Rightarrow> int) \<Rightarrow> element list" where
  "Index_render isMobile st activeIndex = map (Index_category isMobile st activeIndex) (categories st)"

text \<open>Which of the two views an element comes from.\<close>

fun is_windowed :: "element \<Rightarrow> bool" where
  "is_windowed (EmptyCategory _ _) = True"
| "is_windowed (Carousel _ _ _ _ _) = True"
| "is_windowed _ = False"

fun is_flat :: "element \<Rightarrow> bool" where
  "is_flat Null = True"
| "is_flat (CategoryGrid _ _) = True"
| "is_flat _ = False"

section \<open>The order summary\<close>

text \<open>\<^verbatim>\<open>selectedItems.reduce((sum, item) => sum + item.price, 0)\<close> and \<^verbatim>\<open>selectedItems.length\<close>.\<close>

definition totalPrice :: "MenuItem list \<Rightarrow> jsnum" where
  "totalPrice selected = foldl (\<lambda>sum item. js_add sum (price item)) (Finite 0) selected"

definition itemCount :: "MenuItem list \<Rightarrow> nat" where
  "itemCount selected = length selected"

text \<open>Every running sum of the values, starting from \<open>acc\<close>, is a binary64 value.\<close>

fun running_sums_exact :: "rat \<Rightarrow> rat list \<Rightarrow> bool" where
  "running_sums_exact acc [] = True"
| "running_sums_exact acc (v # vs) = (is_double (acc + v) \<and> running_sums_exact (acc + v) vs)"

section \<open>Sample data\<close>

definition mkItem :: "int \<Rightarrow> string \<Rightarrow> jsnum \<Rightarrow> string \<Rightarrow> MenuItem" where
  "mkItem i n p c =
     \<lparr>name = n, price = p, category = c, icon = defaultIcon, icon_name = ''utensils'',
      image_url = None, item_id = i\<rparr>"

definition coffee :: MenuItem where
  "coffee = mkItem 1 ''Coffee'' (Finite 3) ''Drinks''"

definition toast_item :: MenuItem where
  "toast_item = mkItem 2 ''Toast'' (Finite (5 / 2)) ''Sides''"

definition juice :: MenuItem where
  "juice = mkItem 5 ''Juice'' (Finite 4) ''Drinks''"

definition sampleMenu :: "MenuItem list" where
  "sampleMenu = [coffee, toast_item, juice]"

text \<open>The binary64 values nearest to 0.1 and to 0.2.\<close>

definition one_tenth :: rat where
  "one_tenth = 3602879701896397 / 36028797018963968"

definition two_tenths :: rat where
  "two_tenths = 3602879701896397 / 18014398509481984"

definition mint :: MenuItem where
  "mint = mkItem 7 ''Mint'' (Finite one_tenth) ''Sides''"

definition gum :: MenuItem where
  "gum = mkItem 8 ''Gum'' (Finite two_tenths) ''Sides''"

definition infinityDraft :: DialogState where
  "infinityDraft =
     \<lparr>name_input = ''Tea'', price_input = ''Infinity'', category_input = ''Drinks'',
      iconName = ''cup-soda'', selectedIcon = defaultIcon\<rparr>"

definition teaItem :: NewMenuItem where
  "teaItem =
     \<lparr>name = ''Tea'', price = Finite (5 / 2), category = ''Drinks'', icon = defaultIcon,
      icon_name = ''cup-soda'', image_url = None\<rparr>"

definition croissantItem :: NewMenuItem where
  "croissantItem =
     \<lparr>name = ''Croissant'', price = Finite 2, category = ''Pastries'', icon = defaultIcon,
      icon_name = ''cookie'', image_url = None\<rparr>"

definition side :: "int \<Rightarrow> MenuItem" where
  "side i = mkItem i ''Side'' (Finite 1) ''Sides''"

definition sidesMenu :: "MenuItem list" where
  "sidesMenu = [side 1, side 2, side 3, coffee, side 4, side 5, side 6, side 7]"

text \<open>An entry whose id is \<open>2 ^ 53\<close>, and a price text that starts with U+00A0.\<close>

definition bigItem :: MenuItem where
  "bigItem = mkItem 9007199254740992 ''Big'' (Finite 1) ''Drinks''"

definition paddedDraft :: DialogState where
  "paddedDraft =
     \<lparr>name_input = ''Tea'', price_input = [CHR 0xC2, CHR 0xA0] @ ''2.5'',
      category_input = ''Drinks'', iconName = ''cup-soda'', selectedIcon = defaultIcon\<rparr>"

definition noScroll :: "string \<Rightarrow> int" where
  "noScroll cat = 0"

definition teaDraft :: DialogState where
  "teaDraft =
     \<lparr>name_input = ''Tea'', price_input = ''2.5'', category_input = ''Drinks'',
      iconName = ''cup-soda'', selectedIcon = defaultIcon\<rparr>"

section \<open>Theorems\<close>

subsection \<open>Selection\<close>

lemma handleOrderItem_selectedItems:
  "selectedItems (handleOrderItem item st) =
     (if isAlreadySelected (selectedItems st) item
      then filter (\<lambda>selectedItem. item_id selectedItem \<noteq> item_id item) (selectedItems st)
      else selectedItems st @ [item])"
  by (simp add: handleOrderItem_def Let_def)

lemma selected_id_iff:
  "selected_id st i = (\<exists>x \<in> set (selectedItems st). item_id x = i)"
  by (auto simp: selected_id_def image_iff)

lemma isAlreadySelected_iff:
  "isAlreadySelected (selectedItems st) item = selected_id st (item_id item)"
  by (simp add: isAlreadySelected_def selected_id_iff list_ex_iff)

lemma selected_id_toggle:
  "selected_id (handleOrderItem item st) (item_id item) = (\<not> selected_id st (item_id item))"
proof (cases "selected_id st (item_id item)")
  case True
  then show ?thesis
    by (simp add: selected_id_iff [of "handleOrderItem item st"] handleOrderItem_selectedItems
        isAlreadySelected_iff)
next
  case False
  then show ?thesis
    by (simp add: selected_id_iff [of "handleOrderItem item st"] handleOrderItem_selectedItems
        isAlreadySelected_iff)
qed

lemma selected_id_fold_toggle:
  "\<forall>x \<in> set items. item_id x = i \<Longrightarrow>
   selected_id (fold handleOrderItem items st) i = (selected_id st i \<noteq> odd (length items))"
proof (induction items arbitrary: st)
  case Nil
  then show ?case by simp
next
  case (Cons x items)
  then have x: "item_id x = i" and rest: "\<forall>y \<in> set items. item_id y = i"
    by simp_all
  have "selected_id (handleOrderItem x st) i = (\<not> selected_id st i)"
    using selected_id_toggle [of x st] by (simp add: x)
  with Cons.IH [OF rest, of "handleOrderItem x st"] show ?case
    by auto
qed

text \<open>
  C1. Toggling an item removes every entry with its id from the selection when that id
  is selected, and appends the whole item otherwise, so it flips whether the id is
  selected. After any sequence of toggles of items with one id, the id is selected as
  before when the sequence has even length, and the other way round when it has odd
  length.
\<close>

theorem toggle_membership:
  "selectedItems (handleOrderItem item st) =
     (if selected_id st (item_id item)
      then filter (\<lambda>selectedItem. item_id selectedItem \<noteq> item_id item) (selectedItems st)
      else selectedItems st @ [item]) \<and>
   selected_id (handleOrderItem item st) (item_id item) = (\<not> selected_id st (item_id item)) \<and>
   ((\<forall>x \<in> set items. item_id x = i) \<longrightarrow>
      selected_id (fold handleOrderItem items st) i =
        (if even (length items) then selected_id st i else \<not> selected_id st i))"
  using handleOrderItem_selectedItems [of item st] selected_id_toggle [of item st]
    selected_id_fold_toggle [of items i st]
  by (auto simp: isAlreadySelected_iff)

theorem toggle_membership_witness:
  "list_all (\<lambda>x. item_id x = 1) [coffee, coffee, coffee] \<and>
   \<not> selected_id initialState 1 \<and>
   selected_id (fold handleOrderItem [coffee, coffee, coffee] initialState) 1 \<and>
   selectedItems (handleOrderItem coffee initialState) = [coffee] \<and>
   selectedItems (handleOrderItem coffee (handleOrderItem coffee initialState)) = []"
  using toggle_membership [of coffee initialState "[coffee, coffee, coffee]" 1]
    toggle_membership [of coffee "handleOrderItem coffee initialState" "[]" 1]
  by (simp add: coffee_def mkItem_def initialState_def selected_id_def)

subsection \<open>Carousel navigation\<close>

text \<open>
  C4. For a category with \<open>n\<close> items the carousel shows \<open>min 5 n\<close> items and can scroll up
  to index \<open>max 0 (n - 5)\<close>; next moves to \<open>min maxIndex (activeIndex + 1)\<close> and previous to
  \<open>max 0 (activeIndex - 1)\<close>, so next at the last index and previous at 0 change nothing.
\<close>

theorem carousel_navigation_clamped:
  "visibleItems items cat = min 5 (int (length (MenuCarousel_categoryItems items cat))) \<and>
   maxIndex items cat = max 0 (int (length (MenuCarousel_categoryItems items cat)) - 5) \<and>
   goToNext items cat activeIndex = min (maxIndex items cat) (activeIndex + 1) \<and>
   goToPrevious activeIndex = max 0 (activeIndex - 1) \<and>
   goToNext items cat (maxIndex items cat) = maxIndex items cat \<and>
   goToPrevious 0 = 0"
  by (simp add: visibleItems_def maxIndex_def goToNext_def goToPrevious_def)

theorem carousel_navigation_clamped_witness:
  "length (MenuCarousel_categoryItems sidesMenu ''Sides'') = 7 \<and>
   visibleItems sidesMenu ''Sides'' = 5 \<and>
   maxIndex sidesMenu ''Sides'' = 2 \<and>
   goToNext sidesMenu ''Sides'' 0 = 1 \<and>
   goToNext sidesMenu ''Sides'' 1 = 2 \<and>
   goToNext sidesMenu ''Sides'' 2 = 2 \<and>
   goToPrevious 0 = 0 \<and>
   maxIndex sampleMenu ''Drinks'' = 0 \<and>
   goToNext sampleMenu ''Drinks'' 0 = 0"
proof -
  have n: "length (MenuCarousel_categoryItems sidesMenu ''Sides'') = 7"
    by (simp add: MenuCarousel_categoryItems_def sidesMenu_def side_def coffee_def mkItem_def)
  have k: "length (MenuCarousel_categoryItems sampleMenu ''Drinks'') = 2"
    by (simp add: MenuCarousel_categoryItems_def sampleMenu_def coffee_def toast_item_def
        juice_def mkItem_def)
  from n k
    carousel_navigation_clamped [of sidesMenu "''Sides''" 0]
    carousel_navigation_clamped [of sidesMenu "''Sides''" 1]
    carousel_navigation_clamped [of sampleMenu "''Drinks''" 0]
  show ?thesis
    by simp
qed

subsection \<open>Highlighting\<close>

lemma list_ex_id_iff:
  "list_ex (\<lambda>selectedItem. item_id selectedItem = i) selected = (i \<in> set (map item_id selected))"
  by (induction selected) auto

text \<open>
  C9. The grid view and the carousel decide whether an item is selected in the same way:
  by whether some selected entry has the item's id.
\<close>

theorem views_agree_on_selection:
  "MenuCategoryView_isItemSelected selected item = MenuCarousel_isItemSelected selected item \<and>
   MenuCarousel_isItemSelected selected item = (item_id item \<in> set (map item_id selected))"
  by (simp add: MenuCategoryView_isItemSelected_def MenuCarousel_isItemSelected_def
      list_ex_id_iff)

subsection \<open>Frame\<close>

lemma handleOrderItem_frame:
  "menu (handleOrderItem item st) = menu st"
  "categories (handleOrderItem item st) = categories st"
  by (simp_all add: handleOrderItem_def Let_def)

lemma handleAddMenuItem_selectedItems:
  "selectedItems (handleAddMenuItem newItem st) = selectedItems st"
  by (simp add: handleAddMenuItem_def Let_def)

lemma createEntry_cases:
  "createEntry (d, st) = (d, st) \<or>
   createEntry (d, st) =
     (initialDialog,
      setAddItemDialogOpen False
        (handleAddMenuItem
           \<lparr>name = name_input d, price = parseFloat (price_input d),
            category = category_input d, icon = selectedIcon d,
            icon_name = iconName d, image_url = None\<rparr> st))"
  by (simp add: createEntry_def handleSubmit_def Let_def)

lemma createEntry_selectedItems:
  "selectedItems (snd (createEntry (d, st))) = selectedItems st"
  using createEntry_cases [of d st]
  by (auto simp: handleAddMenuItem_selectedItems setAddItemDialogOpen_def)

text \<open>
  C10. Toggling an item changes neither the menu nor the categories; adding a menu item,
  and submitting the dialog whether it is accepted or not, does not change the selection.
\<close>

theorem state_components_independent:
  "menu (handleOrderItem item st) = menu st \<and>
   categories (handleOrderItem item st) = categories st \<and>
   selectedItems (handleAddMenuItem newItem st) = selectedItems st \<and>
   selectedItems (snd (createEntry (d, st))) = selectedItems st"
  by (simp add: handleOrderItem_frame handleAddMenuItem_selectedItems createEntry_selectedItems)


subsection \<open>Categories\<close>

lemma set_first_seen: "set (first_seen xs) = set xs"
  by (induction xs) auto

lemma distinct_first_seen: "distinct (first_seen xs)"
  by (induction xs) (auto simp: set_first_seen)

lemma first_seen_snoc:
  "first_seen (xs @ [c]) = (if c \<in> set xs then first_seen xs else first_seen xs @ [c])"
  by (induction xs) auto

lemma foldl_Set_add:
  "foldl Set_add acc xs = acc @ filter (\<lambda>y. y \<notin> set acc) (first_seen xs)"
proof (induction xs arbitrary: acc)
  case Nil
  then show ?case by simp
next
  case (Cons x xs)
  show ?case
  proof (cases "x \<in> set acc")
    case True
    have "filter (\<lambda>y. y \<notin> set acc) (filter (\<lambda>y. y \<noteq> x) (first_seen xs)) =
          filter (\<lambda>y. y \<notin> set acc) (first_seen xs)"
      using True by (auto intro: filter_cong)
    with True Cons.IH [of acc] show ?thesis
      by (simp add: Set_add_def)
  next
    case False
    have "filter (\<lambda>y. y \<notin> set (acc @ [x])) (first_seen xs) =
          filter (\<lambda>y. y \<notin> set acc) (filter (\<lambda>y. y \<noteq> x) (first_seen xs))"
      by (auto intro: filter_cong)
    with False Cons.IH [of "acc @ [x]"] show ?thesis
      by (simp add: Set_add_def)
  qed
qed

lemma Array_from_new_Set_first_seen: "Array_from_new_Set xs = first_seen xs"
  by (simp add: Array_from_new_Set_def foldl_Set_add)

lemma initialize_categories:
  "categories (initialize menuData st) = first_seen (map category menuData)"
  "menu (initialize menuData st) = menuData"
  by (simp_all add: initialize_def Array_from_new_Set_first_seen)

lemma handleAddMenuItem_categories:
  "categories (handleAddMenuItem newItem st) =
     (if category newItem \<in> set (categories st) then categories st
      else categories st @ [category newItem])"
  by (simp add: handleAddMenuItem_def Let_def)

lemma handleAddMenuItem_menu_categories:
  "map category (menu (handleAddMenuItem newItem st)) = map category (menu st) @ [category newItem]"
  by (simp add: handleAddMenuItem_def Let_def)

lemma dispatch_categories_ok:
  assumes "categories_ok st"
  shows "categories_ok (dispatch ev st)"
proof (cases ev)
  case (OrderItem item)
  with assms show ?thesis
    by (simp add: categories_ok_def handleOrderItem_def Let_def)
next
  case (AddItem newItem)
  from assms have "set (categories st) = set (map category (menu st))"
    by (simp add: categories_ok_def set_first_seen)
  with assms AddItem show ?thesis
    by (simp add: categories_ok_def handleAddMenuItem_categories
        handleAddMenuItem_menu_categories first_seen_snoc)
next
  case (OpenChange b)
  with assms show ?thesis
    by (simp add: categories_ok_def setAddItemDialogOpen_def)
qed

lemma fold_dispatch_categories_ok:
  "categories_ok st \<Longrightarrow> categories_ok (fold dispatch events st)"
  by (induction events arbitrary: st) (simp_all add: dispatch_categories_ok)

lemma dispatch_categories_prefix: "prefix (categories st) (categories (dispatch ev st))"
  by (cases ev)
    (simp_all add: handleOrderItem_def Let_def handleAddMenuItem_categories
      setAddItemDialogOpen_def)

text \<open>
  C7. After the mount effect and after every later event the categories are exactly the
  distinct categories of the menu in first-seen order. The mount effect derives them from
  the entries; adding a menu item appends its category when and only when it is not yet
  listed; no event removes or reorders a category.
\<close>

theorem categories_first_seen:
  "categories (initialize menuData st0) = first_seen (map category menuData) \<and>
   categories (fold dispatch events (initialize menuData st0)) =
     first_seen (map category (menu (fold dispatch events (initialize menuData st0)))) \<and>
   categories (handleAddMenuItem newItem st) =
     (if category newItem \<in> set (categories st) then categories st
      else categories st @ [category newItem]) \<and>
   prefix (categories st) (categories (dispatch ev st)) \<and>
   distinct (first_seen xs) \<and> set (first_seen xs) = set xs"
proof -
  have "categories_ok (initialize menuData st0)"
    by (simp add: categories_ok_def initialize_categories)
  then have "categories_ok (fold dispatch events (initialize menuData st0))"
    by (rule fold_dispatch_categories_ok)
  then show ?thesis
    by (simp add: categories_ok_def initialize_categories handleAddMenuItem_categories
        dispatch_categories_prefix distinct_first_seen set_first_seen)
qed

theorem categories_first_seen_witness:
  "categories (initialize sampleMenu initialState) = [''Drinks'', ''Sides''] \<and>
   categories (fold dispatch [AddItem teaItem, OrderItem coffee, AddItem croissantItem]
     (initialize sampleMenu initialState)) = [''Drinks'', ''Sides'', ''Pastries''] \<and>
   first_seen (map category
     (menu (fold dispatch [AddItem teaItem, OrderItem coffee, AddItem croissantItem]
        (initialize sampleMenu initialState)))) = [''Drinks'', ''Sides'', ''Pastries'']"
proof -
  have c: "map category sampleMenu = [''Drinks'', ''Sides'', ''Drinks'']"
    by (simp add: sampleMenu_def coffee_def toast_item_def juice_def mkItem_def)
  have m: "map category
     (menu (fold dispatch [AddItem teaItem, OrderItem coffee, AddItem croissantItem]
        (initialize sampleMenu initialState))) =
     [''Drinks'', ''Sides'', ''Drinks'', ''Drinks'', ''Pastries'']"
    by (simp add: handleAddMenuItem_menu_categories handleOrderItem_frame initialize_categories c
        teaItem_def croissantItem_def)
  from c m
    categories_first_seen [of sampleMenu initialState
      "[AddItem teaItem, OrderItem coffee, AddItem croissantItem]" teaItem initialState
      "OpenChange True" "[]"]
  show ?thesis
    by simp
qed

subsection \<open>Empty categories\<close>

text \<open>
  C8. For a category without items the carousel renders the empty state, a heading and a
  message without navigation buttons, and the grid view renders nothing.
\<close>

theorem empty_category_views:
  assumes "filter (\<lambda>item. category item = cat) items = []"
  shows "MenuCarousel items cat selected activeIndex = EmptyCategory cat ''No items in this category'' \<and>
         MenuCategoryView items cat selected = Null"
  using assms
  by (simp add: MenuCarousel_def MenuCarousel_categoryItems_def MenuCategoryView_def
      MenuCategoryView_categoryItems_def)

theorem empty_category_views_witness:
  "filter (\<lambda>item. category item = ''Pastries'') sampleMenu = [] \<and>
   MenuCarousel sampleMenu ''Pastries'' [coffee] 0 = EmptyCategory ''Pastries'' ''No items in this category'' \<and>
   MenuCategoryView sampleMenu ''Pastries'' [coffee] = Null"
proof -
  have h: "filter (\<lambda>item. category item = ''Pastries'') sampleMenu = []"
    by (simp add: sampleMenu_def coffee_def toast_item_def juice_def mkItem_def)
  from h empty_category_views [OF h] show ?thesis
    by simp
qed

subsection \<open>Choice of the view\<close>

lemma is_flat_MenuCategoryView: "is_flat (MenuCategoryView items cat selected)"
  by (simp add: MenuCategoryView_def Let_def)

lemma is_windowed_MenuCarousel: "is_windowed (MenuCarousel items cat selected activeIndex)"
  by (simp add: MenuCarousel_def Let_def)

text \<open>
  C6, as the code has it. On a narrow viewport (\<^verbatim>\<open>isMobile\<close>) every category is rendered
  by the grid view, which shows all its items without windowing; on a wide viewport it is
  rendered by the carousel.
\<close>

theorem view_by_viewport:
  "Index_category True st activeIndex cat = MenuCategoryView (menu st) cat (selectedItems st) \<and>
   Index_category False st activeIndex cat =
     MenuCarousel (menu st) cat (selectedItems st) (activeIndex cat) \<and>
   is_flat (Index_category True st activeIndex cat) \<and>
   is_windowed (Index_category False st activeIndex cat)"
  by (simp add: Index_category_def is_flat_MenuCategoryView is_windowed_MenuCarousel)

text \<open>
  C6 as stated, that a narrow viewport selects the carousel and a wide one the grid,
  fails: for the sample menu the narrow page renders the grid and the wide page the
  carousel.
\<close>

theorem narrow_viewport_not_windowed:
  "\<not> is_windowed (Index_category True (initialize sampleMenu initialState) noScroll ''Drinks'') \<and>
   Index_category True (initialize sampleMenu initialState) noScroll ''Drinks'' =
     CategoryGrid ''Drinks'' [(coffee, False), (juice, False)] \<and>
   \<not> is_flat (Index_category False (initialize sampleMenu initialState) noScroll ''Drinks'') \<and>
   Index_category False (initialize sampleMenu initialState) noScroll ''Drinks'' =
     Carousel ''Drinks'' True True 0 [(coffee, False), (juice, False)]"
  by (simp add: Index_category_def initialize_def initialState_def sampleMenu_def coffee_def
      toast_item_def juice_def mkItem_def noScroll_def MenuCategoryView_def
      MenuCategoryView_categoryItems_def MenuCategoryView_isItemSelected_def MenuCarousel_def
      MenuCarousel_categoryItems_def MenuCarousel_isItemSelected_def maxIndex_def
      visibleItems_def)


subsection \<open>Numbers\<close>

lemma bitlen_powi_bounds:
  assumes "0 < a"
  shows "(2::rat) powi (bitlen a - 1) \<le> of_int a" and "of_int a < (2::rat) powi bitlen a"
proof -
  from assms have b1: "1 \<le> bitlen a"
    by (simp add: bitlen_alt_def)
  from bitlen_bounds [OF assms]
  have lo: "2 ^ nat (bitlen a - 1) \<le> a" and hi: "a < 2 ^ nat (bitlen a)"
    by simp_all
  from lo have "(of_int (2 ^ nat (bitlen a - 1)) :: rat) \<le> of_int a"
    by (simp only: of_int_le_iff)
  with b1 show "(2::rat) powi (bitlen a - 1) \<le> of_int a"
    by (simp add: power_int_nonneg_exp)
  from hi have "(of_int a :: rat) < of_int (2 ^ nat (bitlen a))"
    by (simp only: of_int_less_iff)
  with b1 show "of_int a < (2::rat) powi bitlen a"
    by (simp add: power_int_nonneg_exp)
qed

lemma floor_log2_bounds:
  assumes "q \<noteq> 0"
  shows "2 powi floor_log2 q \<le> \<bar>q\<bar>" and "\<bar>q\<bar> < 2 powi (floor_log2 q + 1)"
proof -
  obtain a b where ab: "quotient_of \<bar>q\<bar> = (a, b)"
    by (cases "quotient_of \<bar>q\<bar>")
  then have bpos: "0 < b" and q: "\<bar>q\<bar> = of_int a / of_int b"
    by (simp_all add: quotient_of_denom_pos quotient_of_div)
  from assms have "0 < \<bar>q\<bar>" by simp
  with q bpos have apos: "0 < a"
    by (simp add: zero_less_divide_iff)
  define k where "k = bitlen a - bitlen b"
  have up: "\<bar>q\<bar> < 2 powi (k + 1)"
  proof -
    have "of_int a < (2::rat) powi bitlen a"
      by (rule bitlen_powi_bounds [OF apos])
    also have "(2::rat) powi bitlen a = 2 powi (k + 1) * 2 powi (bitlen b - 1)"
      by (simp add: k_def flip: power_int_add)
    also have "\<dots> \<le> 2 powi (k + 1) * of_int b"
      by (intro mult_left_mono bitlen_powi_bounds [OF bpos]) simp
    finally show ?thesis
      using bpos by (simp add: q pos_divide_less_eq)
  qed
  have low: "2 powi (k - 1) \<le> \<bar>q\<bar>"
  proof -
    have "2 powi (k - 1) * of_int b \<le> 2 powi (k - 1) * (2::rat) powi bitlen b"
      by (intro mult_left_mono less_imp_le bitlen_powi_bounds [OF bpos]) simp
    also have "\<dots> = 2 powi (bitlen a - 1)"
      by (simp add: k_def flip: power_int_add)
    also have "\<dots> \<le> of_int a"
      by (rule bitlen_powi_bounds [OF apos])
    finally show ?thesis
      using bpos by (simp add: q pos_le_divide_eq)
  qed
  have fl: "floor_log2 q = (if 2 powi k \<le> \<bar>q\<bar> then k else k - 1)"
    by (simp add: floor_log2_def ab k_def Let_def)
  show "2 powi floor_log2 q \<le> \<bar>q\<bar>"
    using low by (simp add: fl)
  show "\<bar>q\<bar> < 2 powi (floor_log2 q + 1)"
    using up by (simp add: fl)
qed

lemma floor_log2_unique:
  assumes "2 powi k \<le> \<bar>q\<bar>" and "\<bar>q\<bar> < 2 powi (k + 1)"
  shows "floor_log2 q = k"
proof -
  have "(0::rat) < 2 powi k"
    by simp
  from this assms(1) have "0 < \<bar>q\<bar>"
    by (rule less_le_trans)
  then have "q \<noteq> 0"
    by simp
  note b = floor_log2_bounds [OF this]
  have "(2::rat) powi k < 2 powi (floor_log2 q + 1)"
    using assms(1) b(2) by (rule le_less_trans)
  then have "k < floor_log2 q + 1"
    by (metis not_le power_int_increasing one_le_numeral)
  moreover have "(2::rat) powi floor_log2 q < 2 powi (k + 1)"
    using b(1) assms(2) by (rule le_less_trans)
  then have "floor_log2 q < k + 1"
    by (metis not_le power_int_increasing one_le_numeral)
  ultimately show ?thesis by simp
qed

lemma round_half_even_of_int: "round_half_even (of_int n) = n"
  by (simp add: round_half_even_def)

lemma round64_is_double:
  assumes "is_double q"
  shows "round64 q = Finite q"
proof (cases "q = 0")
  case True
  then show ?thesis by (simp add: round64_def)
next
  case False
  define e where "e = quantum_exp q"
  from assms False have int: "of_int \<lfloor>q / 2 powi e\<rfloor> = q / 2 powi e" and small: "\<bar>q\<bar> < 2 powi 1024"
    by (simp_all add: is_double_def e_def Let_def)
  have "round_half_even (q / 2 powi e) = \<lfloor>q / 2 powi e\<rfloor>"
    using round_half_even_of_int [of "\<lfloor>q / 2 powi e\<rfloor>"] by (simp only: int)
  then have "of_int (round_half_even (q / 2 powi e)) * 2 powi e = q"
    by (simp add: int)
  with False small show ?thesis
    by (simp add: round64_def Let_def flip: e_def)
qed

lemma floor_rat_numeral [simp]:
  "\<lfloor>(numeral a :: rat) / numeral b\<rfloor> = numeral a div numeral b"
  using floor_divide_of_int_eq [of "numeral a" "numeral b", where ?'a = rat] by simp


lemma is_double_0: "is_double 0"
  by (simp add: is_double_def)

lemma floor_log2_3: "floor_log2 3 = 1"
  by (rule floor_log2_unique) simp_all

lemma floor_log2_5_2: "floor_log2 (5 / 2) = 1"
  by (rule floor_log2_unique) simp_all

lemma floor_log2_11_2: "floor_log2 (11 / 2) = 2"
  by (rule floor_log2_unique) simp_all

lemma floor_log2_1_10: "floor_log2 (1 / 10) = - 4"
  by (rule floor_log2_unique) simp_all

lemma floor_log2_1_5: "floor_log2 (1 / 5) = - 3"
  by (rule floor_log2_unique) simp_all

lemma floor_log2_sum: "floor_log2 (10808639105689191 / 36028797018963968) = - 2"
  by (rule floor_log2_unique) simp_all

lemma is_double_samples: "is_double 3" "is_double (5 / 2)" "is_double (11 / 2)"
  by (simp_all add: is_double_def quantum_exp_def floor_log2_3 floor_log2_5_2 floor_log2_11_2)

lemma floor_log2_tenths:
  "floor_log2 (3602879701896397 / 36028797018963968) = - 4"
  "floor_log2 (3602879701896397 / 18014398509481984) = - 3"
  by (rule floor_log2_unique; simp)+

lemma is_double_tenths: "is_double one_tenth" "is_double two_tenths"
  by (simp_all add: is_double_def quantum_exp_def one_tenth_def two_tenths_def floor_log2_tenths)

lemmas parse_defs =
  parseFloat_def takeSign_def unsignedDecimal_def exponentPart_def isWhiteSpace1_def
  isWhiteSpace2_def isWhiteSpace3_def
  isDigit_def digitsValue_def digitValue_def Let_def

lemma parseFloat_Nil: "parseFloat [] = NaN"
  by (simp add: parse_defs)

lemma parseFloat_abc: "parseFloat ''abc'' = NaN"
  by (simp add: parse_defs)

lemma parseFloat_Infinity: "parseFloat ''Infinity'' = Infinity"
  by (simp add: parse_defs)

lemma parseFloat_2_5: "parseFloat ''2.5'' = Finite (5 / 2)"
  by (simp add: parse_defs round64_is_double is_double_samples)

lemma parseFloat_padded: "parseFloat ([CHR 0xC2, CHR 0xA0] @ ''2.5'') = Finite (5 / 2)"
  by (simp add: parse_defs round64_is_double is_double_samples)

lemma parseFloat_white_space:
  "parseFloat ([CHR 0x09, CHR 0xE3, CHR 0x80, CHR 0x80, CHR 0xEF, CHR 0xBB, CHR 0xBF,
                CHR 0xE2, CHR 0x80, CHR 0xA8, CHR 0x20] @ ''2.5kg'') = Finite (5 / 2)"
  by (simp add: parse_defs round64_is_double is_double_samples)

lemma parseFloat_0_1: "parseFloat ''0.1'' = Finite one_tenth"
  by (simp add: parse_defs round64_def quantum_exp_def floor_log2_1_10 round_half_even_def
      one_tenth_def)

lemma parseFloat_0_2: "parseFloat ''0.2'' = Finite two_tenths"
  by (simp add: parse_defs round64_def quantum_exp_def floor_log2_1_5 round_half_even_def
      two_tenths_def)


subsection \<open>New entries\<close>

lemma Max_insert_0_foldr: "Max (insert 0 (set xs)) = foldr max xs (0::int)"
proof (induction xs)
  case Nil
  then show ?case by simp
next
  case (Cons x xs)
  have "Max (insert 0 (set (x # xs))) = Max (insert x (insert 0 (set xs)))"
    by (simp add: insert_commute)
  also have "\<dots> = max x (Max (insert 0 (set xs)))"
    by (rule Max_insert) simp_all
  also have "\<dots> = foldr max (x # xs) 0"
    by (simp only: Cons.IH foldr.simps o_apply)
  finally show ?case .
qed

lemma foldr_max_nonneg: "0 \<le> foldr max xs (0::int)"
  by (induction xs) auto

lemma foldr_max_ge: "x \<in> set xs \<Longrightarrow> x \<le> foldr max xs (0::int)"
  by (induction xs) auto

lemma foldr_max_less: "\<forall>x \<in> set xs. x < b \<Longrightarrow> 0 < b \<Longrightarrow> foldr max xs (0::int) < b"
  by (induction xs) auto

lemma is_double_whole:
  assumes "0 < m" and "m \<le> 2 ^ 53"
  shows "is_double (of_int m)"
proof -
  define q :: rat where "q = of_int m"
  define k where "k = floor_log2 q"
  from assms(1) have "(of_int 1 :: rat) \<le> of_int m"
    by (simp only: of_int_le_iff)
  then have q1: "1 \<le> q"
    by (simp add: q_def)
  from assms(2) have "(of_int m :: rat) \<le> of_int (2 ^ 53)"
    by (simp only: of_int_le_iff)
  then have q53: "q \<le> 2 ^ 53"
    by (simp add: q_def)
  from q1 have q0: "q \<noteq> 0" and absq: "\<bar>q\<bar> = q"
    by simp_all
  from floor_log2_bounds [OF q0] have lo: "2 powi k \<le> q" and hi: "q < 2 powi (k + 1)"
    by (simp_all add: k_def absq)
  have "(2::rat) powi 0 < 2 powi (k + 1)"
    using q1 hi by simp
  then have "\<not> k + 1 \<le> 0"
    using power_int_increasing [of "k + 1" 0 "2::rat"] by auto
  then have k0: "0 \<le> k"
    by simp
  have "(2::rat) powi k \<le> 2 powi 53"
    using lo q53 by simp
  then have "\<not> 53 < k"
    using power_int_strict_increasing [of 53 k "2::rat"] by auto
  then have k53: "k \<le> 53"
    by simp
  have small: "\<bar>q\<bar> < 2 powi 1024"
    using q53 by (simp add: absq)
  have e: "quantum_exp q = k - 52"
    using k0 by (simp add: quantum_exp_def k_def)
  have whole: "of_int \<lfloor>q / 2 powi (k - 52)\<rfloor> = q / 2 powi (k - 52)"
  proof (cases "k = 53")
    case True
    with lo q53 have "q = 2 ^ 53" by simp
    with True show ?thesis by simp
  next
    case False
    with k53 have le: "0 \<le> 52 - k" by simp
    have "k - 52 = - (52 - k)" by simp
    then have "q / 2 powi (k - 52) = q * 2 powi (52 - k)"
      by (simp only: power_int_minus divide_inverse inverse_inverse_eq)
    also have "\<dots> = of_int (m * 2 ^ nat (52 - k))"
      using le by (simp add: q_def power_int_nonneg_exp)
    finally show ?thesis
      by (simp only: floor_of_int)
  qed
  from small whole show ?thesis
    by (simp add: is_double_def e q0 flip: q_def)
qed

lemma js_succ_exact:
  assumes "0 \<le> n" and "n < 2 ^ 53"
  shows "whole_number (js_add (Finite (of_int n)) (Finite 1)) = n + 1"
proof -
  from assms have "is_double (of_int (n + 1))"
    by (intro is_double_whole) simp_all
  then have "round64 (of_int (n + 1)) = Finite (of_int (n + 1))"
    by (rule round64_is_double)
  moreover have "(of_int n :: rat) + 1 = of_int (n + 1)"
    by simp
  ultimately have "js_add (Finite (of_int n)) (Finite 1) = Finite (of_int (n + 1))"
    by (simp only: js_add.simps)
  then show ?thesis
    by (simp only: whole_number_def jsnum.case floor_of_int)
qed

lemma newId_foldr:
  "newId items =
     whole_number (js_add (Finite (of_int (foldr max (map item_id items) 0))) (Finite 1))"
proof -
  have "set (map item_id items @ [0]) = insert 0 (set (map item_id items))"
    by simp
  then show ?thesis
    by (simp only: newId_def Max_insert_0_foldr)
qed

lemma newId_safe:
  assumes "\<forall>x \<in> set items. item_id x < 2 ^ 53"
  shows "newId items = foldr max (map item_id items) 0 + 1"
proof -
  from assms have "foldr max (map item_id items) 0 < 2 ^ 53"
    by (intro foldr_max_less) simp_all
  then show ?thesis
    unfolding newId_foldr by (rule js_succ_exact [OF foldr_max_nonneg])
qed

lemma newId_greater:
  assumes "\<forall>x \<in> set items. item_id x < 2 ^ 53" and "x \<in> set items"
  shows "item_id x < newId items"
proof -
  from assms(2) have "item_id x \<le> foldr max (map item_id items) 0"
    by (intro foldr_max_ge) simp
  then show ?thesis
    by (simp add: newId_safe [OF assms(1)])
qed

lemma handleAddMenuItem_menu:
  "menu (handleAddMenuItem newItem st) =
     menu st @
       [\<lparr>name = name newItem, price = price newItem, category = category newItem,
         icon = icon newItem, icon_name = icon_name newItem, image_url = image_url newItem,
         item_id = newId (menu st)\<rparr>]"
  by (simp add: handleAddMenuItem_def Let_def)

lemma createEntry_accepted:
  "accepted d \<Longrightarrow>
   createEntry (d, st) =
     (initialDialog,
      setAddItemDialogOpen False
        (handleAddMenuItem
           \<lparr>name = name_input d, price = parseFloat (price_input d),
            category = category_input d, icon = selectedIcon d,
            icon_name = iconName d, image_url = None\<rparr> st))"
  by (simp add: accepted_def createEntry_def handleSubmit_def isNaN_def)

lemma createEntry_not_accepted: "\<not> accepted d \<Longrightarrow> createEntry (d, st) = (d, st)"
  by (auto simp: accepted_def createEntry_def handleSubmit_def isNaN_def)

lemma createEntry_accepted_menu:
  "accepted d \<Longrightarrow>
   menu (snd (createEntry (d, st))) =
     menu st @
       [\<lparr>name = name_input d, price = parseFloat (price_input d),
         category = category_input d, icon = selectedIcon d, icon_name = iconName d,
         image_url = None, item_id = newId (menu st)\<rparr>]"
  by (simp add: createEntry_accepted setAddItemDialogOpen_def handleAddMenuItem_menu)

lemma accepted_iff:
  "accepted d =
     (\<not> (name_input d = [] \<or> category_input d = [] \<or> iconName d = [] \<or>
         isNaN (parseFloat (price_input d))))"
  by (auto simp: accepted_def isNaN_def parseFloat_Nil)

text \<open>
  C2, as the code has it. For every menu, the empty one included, adding an item appends
  exactly one entry at the end, so the menu grows by one, and a draft that the dialog
  accepts is added in this way. The id of the entry is \<open>max(ids, 0) + 1\<close> in binary64
  arithmetic: whenever every id in the menu is below \<open>2 ^ 53\<close> it is exactly
  \<open>max(ids, 0) + 1\<close> and greater than the id of every entry already in the menu.
\<close>

theorem new_entry_id:
  "menu (handleAddMenuItem newItem st) =
     menu st @
       [\<lparr>name = name newItem, price = price newItem, category = category newItem,
         icon = icon newItem, icon_name = icon_name newItem, image_url = image_url newItem,
         item_id = newId (menu st)\<rparr>] \<and>
   length (menu (handleAddMenuItem newItem st)) = length (menu st) + 1 \<and>
   (accepted d \<longrightarrow>
      menu (snd (createEntry (d, st))) =
        menu st @
          [\<lparr>name = name_input d, price = parseFloat (price_input d),
            category = category_input d, icon = selectedIcon d, icon_name = iconName d,
            image_url = None, item_id = newId (menu st)\<rparr>] \<and>
      length (menu (snd (createEntry (d, st)))) = length (menu st) + 1) \<and>
   ((\<forall>x \<in> set (menu st). item_id x < 2 ^ 53) \<longrightarrow>
      newId (menu st) = foldr max (map item_id (menu st)) 0 + 1 \<and>
      (\<forall>x \<in> set (menu st). item_id x < newId (menu st)))"
  using newId_greater [of "menu st"] newId_safe [of "menu st"]
  by (simp add: handleAddMenuItem_menu createEntry_accepted_menu)

theorem new_entry_id_witness:
  "accepted teaDraft \<and>
   list_all (\<lambda>x. item_id x < 2 ^ 53) sampleMenu \<and>
   list_all (\<lambda>x. item_id x < 6) sampleMenu \<and>
   menu (snd (createEntry (teaDraft, initialize sampleMenu initialState))) =
     sampleMenu @
       [\<lparr>name = ''Tea'', price = Finite (5 / 2), category = ''Drinks'', icon = defaultIcon,
         icon_name = ''cup-soda'', image_url = None, item_id = 6\<rparr>] \<and>
   map item_id (menu (snd (createEntry (teaDraft, initialState)))) = [1]"
proof -
  have a: "accepted teaDraft"
    by (simp add: accepted_def teaDraft_def parseFloat_2_5)
  have ids: "map item_id sampleMenu = [1, 2, 5]"
    by (simp add: sampleMenu_def coffee_def toast_item_def juice_def mkItem_def)
  have safe: "\<forall>x \<in> set sampleMenu. item_id x < 2 ^ 53"
    by (simp add: sampleMenu_def coffee_def toast_item_def juice_def mkItem_def)
  have m: "menu (initialize sampleMenu initialState) = sampleMenu"
    by (simp add: initialize_def)
  have m0: "menu initialState = []"
    by (simp add: initialState_def)
  from a ids safe m m0
    new_entry_id [of teaItem "initialize sampleMenu initialState" teaDraft]
    new_entry_id [of teaItem initialState teaDraft]
  show ?thesis
    by (simp add: teaDraft_def parseFloat_2_5)
       (simp add: sampleMenu_def coffee_def toast_item_def juice_def mkItem_def)
qed

lemma floor_log2_big: "floor_log2 9007199254740993 = 53"
  by (rule floor_log2_unique) simp_all

lemma newId_bigItem: "newId [bigItem] = 9007199254740992"
  by (simp add: newId_def bigItem_def mkItem_def round64_def quantum_exp_def floor_log2_big
      round_half_even_def whole_number_def)

text \<open>
  C2 as stated, that the new id is greater than every id of any menu, fails: after an
  entry with the id \<open>2 ^ 53\<close> the sum \<open>2 ^ 53 + 1\<close> is rounded back to \<open>2 ^ 53\<close>, and the
  new entry gets the id that the menu already holds.
\<close>

theorem new_entry_id_repeats:
  "accepted teaDraft \<and>
   map item_id (menu (initialize [bigItem] initialState)) = [9007199254740992] \<and>
   map item_id (menu (snd (createEntry (teaDraft, initialize [bigItem] initialState)))) =
     [9007199254740992, 9007199254740992] \<and>
   \<not> item_id bigItem < newId (menu (initialize [bigItem] initialState))"
proof -
  have a: "accepted teaDraft"
    by (simp add: accepted_def teaDraft_def parseFloat_2_5)
  have m: "menu (initialize [bigItem] initialState) = [bigItem]"
    by (simp add: initialize_def)
  have i: "item_id bigItem = 9007199254740992"
    by (simp add: bigItem_def mkItem_def)
  from a show ?thesis
    by (simp add: createEntry_accepted_menu m i newId_bigItem)
qed

subsection \<open>Validation\<close>

text \<open>
  C3, as the code has it. Submitting a draft changes nothing at all, and in particular
  leaves the menu as it is, exactly when the name, the category or the icon name is empty
  or the price text does not parse to a number (\<^verbatim>\<open>parseFloat\<close> gives \<^verbatim>\<open>NaN\<close>, as for
  the empty text).
\<close>

theorem createEntry_rejects:
  "(createEntry (d, st) = (d, st)) =
     (name_input d = [] \<or> category_input d = [] \<or> iconName d = [] \<or>
      isNaN (parseFloat (price_input d))) \<and>
   (menu (snd (createEntry (d, st))) = menu st) =
     (name_input d = [] \<or> category_input d = [] \<or> iconName d = [] \<or>
      isNaN (parseFloat (price_input d)))"
proof (cases "accepted d")
  case True
  then have "menu (snd (createEntry (d, st))) \<noteq> menu st"
    by (simp add: createEntry_accepted_menu)
  moreover from this have "createEntry (d, st) \<noteq> (d, st)"
    by auto
  ultimately show ?thesis
    using True by (simp add: accepted_iff)
next
  case False
  then have "createEntry (d, st) = (d, st)"
    by (rule createEntry_not_accepted)
  with False show ?thesis
    by (simp add: accepted_iff)
qed

theorem createEntry_rejects_witness:
  "createEntry (teaDraft\<lparr>name_input := []\<rparr>, initialize sampleMenu initialState) =
     (teaDraft\<lparr>name_input := []\<rparr>, initialize sampleMenu initialState) \<and>
   createEntry (teaDraft\<lparr>price_input := ''abc''\<rparr>, initialize sampleMenu initialState) =
     (teaDraft\<lparr>price_input := ''abc''\<rparr>, initialize sampleMenu initialState) \<and>
   menu (snd (createEntry (teaDraft, initialize sampleMenu initialState))) \<noteq> sampleMenu \<and>
   parseFloat (price_input paddedDraft) = Finite (5 / 2) \<and>
   menu (snd (createEntry (paddedDraft, initialize sampleMenu initialState))) \<noteq> sampleMenu"
  using createEntry_rejects [of "teaDraft\<lparr>name_input := []\<rparr>" "initialize sampleMenu initialState"]
    createEntry_rejects [of "teaDraft\<lparr>price_input := ''abc''\<rparr>" "initialize sampleMenu initialState"]
    createEntry_rejects [of teaDraft "initialize sampleMenu initialState"]
    createEntry_rejects [of paddedDraft "initialize sampleMenu initialState"]
    parseFloat_padded
  by (simp add: teaDraft_def paddedDraft_def parseFloat_abc parseFloat_2_5 isNaN_def
      initialize_def)

text \<open>
  C3 as stated, that a price which does not parse to a finite value is refused, fails:
  the price text \<^verbatim>\<open>Infinity\<close> parses to an infinite number, and the draft is accepted
  and appended with that price.
\<close>

theorem infinite_price_accepted:
  "spec_invalid infinityDraft \<and>
   parseFloat (price_input infinityDraft) = Infinity \<and>
   createEntry (infinityDraft, initialState) \<noteq> (infinityDraft, initialState) \<and>
   map price (menu (snd (createEntry (infinityDraft, initialState)))) = [Infinity]"
proof -
  have p: "parseFloat (price_input infinityDraft) = Infinity"
    by (simp add: infinityDraft_def parseFloat_Infinity)
  then have a: "accepted infinityDraft"
    by (simp add: accepted_def) (simp add: infinityDraft_def)
  have "map price (menu (snd (createEntry (infinityDraft, initialState)))) = [Infinity]"
    by (simp add: createEntry_accepted_menu [OF a] p initialState_def)
  moreover from this have "createEntry (infinityDraft, initialState) \<noteq> (infinityDraft, initialState)"
    by (auto simp: initialState_def)
  moreover have "spec_invalid infinityDraft"
    by (simp add: spec_invalid_def p isFinite_def)
  ultimately show ?thesis
    using p by simp
qed

subsection \<open>Order total\<close>

lemma totalPrice_snoc:
  "totalPrice (selected @ [x]) = js_add (totalPrice selected) (price x)"
  by (simp add: totalPrice_def)

lemma foldl_js_add_exact:
  "map price selected = map Finite vs \<Longrightarrow> running_sums_exact acc vs \<Longrightarrow>
   foldl (\<lambda>sum item. js_add sum (price item)) (Finite acc) selected = Finite (acc + sum_list vs)"
proof (induction selected arbitrary: acc vs)
  case Nil
  then show ?case by simp
next
  case (Cons x selected)
  from Cons.prems(1) obtain v vs' where vs: "vs = v # vs'" and px: "price x = Finite v"
    and rest: "map price selected = map Finite vs'"
    by (cases vs) auto
  from Cons.prems(2) vs have d: "is_double (acc + v)" and r: "running_sums_exact (acc + v) vs'"
    by simp_all
  from Cons.IH [OF rest r] show ?case
    by (simp add: vs px round64_is_double [OF d] add.assoc)
qed

text \<open>
  C5, as the code has it. The count is the number of selected items. The total is the
  prices added from left to right, starting from 0, in binary64 arithmetic; it is 0 for
  the empty selection, and it is the exact sum whenever the prices are finite and every
  running sum is a binary64 value.
\<close>

theorem order_total:
  "itemCount selected = length selected \<and>
   totalPrice [] = Finite 0 \<and> itemCount [] = 0 \<and>
   totalPrice (selected @ [x]) = js_add (totalPrice selected) (price x) \<and>
   (map price selected = map Finite vs \<and> running_sums_exact 0 vs \<longrightarrow>
      totalPrice selected = Finite (sum_list vs))"
  using foldl_js_add_exact [of selected vs 0]
  by (auto simp: itemCount_def totalPrice_snoc) (simp_all add: totalPrice_def)

theorem order_total_witness:
  "map price [coffee, toast_item] = map Finite [3, 5 / 2] \<and>
   running_sums_exact 0 [3, 5 / 2] \<and>
   totalPrice [coffee, toast_item] = Finite (11 / 2) \<and>
   itemCount [coffee, toast_item] = 2"
proof -
  have p: "map price [coffee, toast_item] = map Finite [3, 5 / 2]"
    by (simp add: coffee_def toast_item_def mkItem_def)
  have r: "running_sums_exact 0 [3, 5 / 2]"
    by (simp add: is_double_samples)
  from p r order_total [of "[coffee, toast_item]" juice "[3, 5 / 2]"] show ?thesis
    by simp
qed

text \<open>
  C5 as stated, that the total is always the exact sum of the prices, fails: for two
  items priced 0.1 and 0.2 the total is the binary64 value above 0.3, not the sum of the
  two prices.
\<close>

theorem total_not_exact_sum:
  "parseFloat ''0.1'' = price mint \<and> parseFloat ''0.2'' = price gum \<and>
   is_double one_tenth \<and> is_double two_tenths \<and>
   totalPrice [mint, gum] = Finite (1351079888211149 / 4503599627370496) \<and>
   totalPrice [mint, gum] \<noteq> Finite (one_tenth + two_tenths)"
proof -
  have "totalPrice [mint, gum] = js_add (js_add (Finite 0) (Finite one_tenth)) (Finite two_tenths)"
    by (simp add: totalPrice_def mint_def gum_def mkItem_def del: js_add.simps)
  also have "js_add (Finite 0) (Finite one_tenth) = Finite one_tenth"
    by (simp add: round64_is_double is_double_tenths)
  also have "js_add (Finite one_tenth) (Finite two_tenths) =
      Finite (1351079888211149 / 4503599627370496)"
    by (simp add: one_tenth_def two_tenths_def round64_def quantum_exp_def floor_log2_sum
        round_half_even_def)
  finally have t: "totalPrice [mint, gum] = Finite (1351079888211149 / 4503599627370496)" .
  have "one_tenth + two_tenths \<noteq> 1351079888211149 / 4503599627370496"
    by (simp add: one_tenth_def two_tenths_def)
  with t show ?thesis
    by (simp add: parseFloat_0_1 parseFloat_0_2 mint_def gum_def mkItem_def is_double_tenths)
qed

end
